theory Spec2Isabelle
  imports Main "HOL-Library.Word" "HOL-Library.Sublist"
begin

section \<open>The world the tool runs in\<close>

text \<open>
  \<^verbatim>\<open>cli.js\<close> is a sequential chain of awaited steps on the file system, on three external
  tools started with \<^verbatim>\<open>exec\<close> and on one child started with \<^verbatim>\<open>spawn\<close>. The model
  passes the file system through every step and collects the effects of a run, in order,
  as a list of events.

  A path is the list of its components, so \<^verbatim>\<open>path.join(dir, name)\<close> with a plain file name
  adds one component and \<^verbatim>\<open>path.dirname\<close> removes one. The file system holds regular files
  and directories only (no links, no permissions).
\<close>

type_synonym byte = "8 word"
type_synonym bytes = "byte list"
type_synonym path = "string list"

datatype node = File bytes | Dir

type_synonym filesys = "path \<rightharpoonup> node"

text \<open>
  What a step can end with instead of a value. \<open>Error\<close> is \<^verbatim>\<open>new Error(message)\<close> thrown by
  the tool itself, \<open>SystemError\<close> the rejection of an \<^verbatim>\<open>fs.promises\<close> call (by its code),
  \<open>ExecError\<close> the rejection of the promisified \<^verbatim>\<open>exec\<close>, \<open>Rejected\<close> a promise rejected
  with a plain string. \<open>Uncaught\<close> is an \<^verbatim>\<open>'error'\<close> event on an emitter that has no
  listener for it: the runtime throws it outside every promise, no \<^verbatim>\<open>catch\<close> sees it
  and the process ends.
\<close>

datatype js_error =
    Error string
  | SystemError string
  | ExecError string
  | Rejected string
  | Uncaught string

record exec_opts =
  cwd :: "path option"
  shell :: "string option"

datatype event =
    Mkdir path
  | WriteFile path bytes
  | Cp path path
  | Exec string exec_opts
  | Spawn string "string list"
  | Stdout bytes
  | Stderr bytes
  | Console_debug string
  | Console_info string
  | Console_log string
  | Console_error string

text \<open>
  How a spawned child ends: the \<^verbatim>\<open>'exit'\<close> event with its code (\<^verbatim>\<open>null\<close>, here \<open>None\<close>,
  when a signal ended the child) after the child wrote its two streams, or the
  \<^verbatim>\<open>'error'\<close> event when it could not be started.
\<close>

datatype child = Exited "nat option" bytes bytes | SpawnFailed string

text \<open>
  The parts of the runtime and of the machine that \<^verbatim>\<open>cli.js\<close> reads and does not define:
  the \<^verbatim>\<open>process\<close> fields, \<^verbatim>\<open>__dirname\<close>, the MD5 of \<^verbatim>\<open>node:crypto\<close>, \<^verbatim>\<open>JSON.stringify\<close>
  on the directory, and the external programs. An external program is any function from
  the file system it finds to its outcome and the file system it leaves.
\<close>

record env =
  platform :: string
  version :: string
  execPath :: path
  argv :: "string list"
  dirname :: path
  md5 :: "bytes \<Rightarrow> bytes"
  JSON_stringify :: "path \<Rightarrow> string"
  exec_oracle :: "string \<Rightarrow> exec_opts \<Rightarrow> filesys \<Rightarrow> string option \<times> filesys"
  spawn_oracle :: "string \<Rightarrow> string list \<Rightarrow> filesys \<Rightarrow> child \<times> filesys"

text \<open>The outcome of running a step: its value or error, the file system, the effects.\<close>

record 'a run =
  result :: "js_error + 'a"
  files :: filesys
  events :: "event list"

type_synonym 'a io = "filesys \<Rightarrow> 'a run"

subsection \<open>Sequencing: \<^verbatim>\<open>await\<close>, \<^verbatim>\<open>throw\<close>, \<^verbatim>\<open>try\<close>/\<^verbatim>\<open>catch\<close>\<close>

definition return :: "'a \<Rightarrow> 'a io" where
  "return x fs = \<lparr>result = Inr x, files = fs, events = []\<rparr>"

definition throw :: "js_error \<Rightarrow> 'a io" where
  "throw err fs = \<lparr>result = Inl err, files = fs, events = []\<rparr>"

definition await :: "'a io \<Rightarrow> ('a \<Rightarrow> 'b io) \<Rightarrow> 'b io" where
  "await m k fs =
     (let r = m fs in
      case result r of
        Inl err \<Rightarrow> \<lparr>result = Inl err, files = files r, events = events r\<rparr>
      | Inr x \<Rightarrow>
          (let r' = k x (files r) in
           \<lparr>result = result r', files = files r', events = events r @ events r'\<rparr>))"

fun catchable :: "js_error \<Rightarrow> bool" where
  "catchable (Uncaught _) = False"
| "catchable _ = True"

definition try_catch :: "'a io \<Rightarrow> (js_error \<Rightarrow> 'a io) \<Rightarrow> 'a io" where
  "try_catch m h fs =
     (let r = m fs in
      case result r of
        Inr x \<Rightarrow> r
      | Inl err \<Rightarrow>
          if catchable err then
            (let r' = h err (files r) in
             \<lparr>result = result r', files = files r', events = events r @ events r'\<rparr>)
          else r)"

definition reading :: "(filesys \<Rightarrow> js_error + 'a) \<Rightarrow> 'a io" where
  "reading f fs = \<lparr>result = f fs, files = fs, events = []\<rparr>"

definition emit :: "event \<Rightarrow> unit io" where
  "emit ev fs = \<lparr>result = Inr (), files = fs, events = [ev]\<rparr>"

subsection \<open>The calls of \<^verbatim>\<open>node:fs\<close>, \<^verbatim>\<open>node:path\<close> and \<^verbatim>\<open>node:child_process\<close>\<close>

definition path_join :: "path \<Rightarrow> string \<Rightarrow> path" where
  "path_join dir name = dir @ [name]"

fun isFile :: "node \<Rightarrow> bool" where
  "isFile (File _) = True"
| "isFile Dir = False"

definition fs_stat :: "path \<Rightarrow> filesys \<Rightarrow> js_error + node" where
  "fs_stat p fs = (case fs p of None \<Rightarrow> Inl (SystemError ''ENOENT'') | Some n \<Rightarrow> Inr n)"

definition parent_error :: "filesys \<Rightarrow> path \<Rightarrow> string option" where
  "parent_error fs p =
     (case fs (butlast p) of
        Some Dir \<Rightarrow> None
      | Some (File _) \<Rightarrow> Some ''ENOTDIR''
      | None \<Rightarrow> Some ''ENOENT'')"

definition fs_mkdir :: "path \<Rightarrow> unit io" where
  "fs_mkdir p fs =
     (if fs p \<noteq> None then
        \<lparr>result = Inl (SystemError ''EEXIST''), files = fs, events = [Mkdir p]\<rparr>
      else case parent_error fs p of
        Some code \<Rightarrow> \<lparr>result = Inl (SystemError code), files = fs, events = [Mkdir p]\<rparr>
      | None \<Rightarrow> \<lparr>result = Inr (), files = fs(p \<mapsto> Dir), events = [Mkdir p]\<rparr>)"

definition fs_readFile :: "path \<Rightarrow> filesys \<Rightarrow> js_error + bytes" where
  "fs_readFile p fs =
     (case fs p of
        None \<Rightarrow> Inl (SystemError ''ENOENT'')
      | Some Dir \<Rightarrow> Inl (SystemError ''EISDIR'')
      | Some (File bs) \<Rightarrow> Inr bs)"

definition fs_writeFile :: "path \<Rightarrow> bytes \<Rightarrow> unit io" where
  "fs_writeFile p data fs =
     (if fs p = Some Dir then
        \<lparr>result = Inl (SystemError ''EISDIR''), files = fs, events = [WriteFile p data]\<rparr>
      else case parent_error fs p of
        Some code \<Rightarrow>
          \<lparr>result = Inl (SystemError code), files = fs, events = [WriteFile p data]\<rparr>
      | None \<Rightarrow>
          \<lparr>result = Inr (), files = fs(p \<mapsto> File data), events = [WriteFile p data]\<rparr>)"

text \<open>
  \<^verbatim>\<open>fs.cp\<close> with its default options copies one regular file over whatever regular file
  is at the destination, and first creates the destination's directory, with its
  ancestors, when it does not exist.
\<close>

fun mkdir_recursive :: "path \<Rightarrow> string list \<Rightarrow> filesys \<Rightarrow> js_error + filesys" where
  "mkdir_recursive pre [] fs = Inr fs"
| "mkdir_recursive pre (s # ss) fs =
     (case fs (pre @ [s]) of
        Some (File _) \<Rightarrow> Inl (SystemError ''ENOTDIR'')
      | Some Dir \<Rightarrow> mkdir_recursive (pre @ [s]) ss fs
      | None \<Rightarrow> mkdir_recursive (pre @ [s]) ss (fs(pre @ [s] \<mapsto> Dir)))"

definition fs_cp :: "path \<Rightarrow> path \<Rightarrow> unit io" where
  "fs_cp src dest fs =
     (case fs src of
        None \<Rightarrow> \<lparr>result = Inl (SystemError ''ENOENT''), files = fs, events = [Cp src dest]\<rparr>
      | Some Dir \<Rightarrow>
          (case fs dest of
             Some (File _) \<Rightarrow>
               \<lparr>result = Inl (SystemError ''ERR_FS_CP_DIR_TO_NON_DIR''), files = fs,
                 events = [Cp src dest]\<rparr>
           | _ \<Rightarrow>
               \<lparr>result = Inl (SystemError ''ERR_FS_EISDIR''), files = fs,
                 events = [Cp src dest]\<rparr>)
      | Some (File bs) \<Rightarrow>
          if src = dest then
            \<lparr>result = Inl (SystemError ''ERR_FS_CP_EINVAL''), files = fs, events = [Cp src dest]\<rparr>
          else if fs dest = Some Dir then
            \<lparr>result = Inl (SystemError ''ERR_FS_CP_NON_DIR_TO_DIR''), files = fs,
              events = [Cp src dest]\<rparr>
          else
            (case (if fs (butlast dest) = None then mkdir_recursive [] (butlast dest) fs
                   else Inr fs) of
               Inl err \<Rightarrow> \<lparr>result = Inl err, files = fs, events = [Cp src dest]\<rparr>
             | Inr fs1 \<Rightarrow>
                 (case parent_error fs1 dest of
                    Some code \<Rightarrow>
                      \<lparr>result = Inl (SystemError code), files = fs1, events = [Cp src dest]\<rparr>
                  | None \<Rightarrow>
                      \<lparr>result = Inr (), files = fs1(dest \<mapsto> File bs),
                        events = [Cp src dest]\<rparr>)))"

text \<open>
  \<^verbatim>\<open>util.promisify(cp.exec)\<close>: the command runs to its end; the promise is rejected when
  it cannot be started or exits with a code other than 0.
\<close>

definition exec :: "env \<Rightarrow> string \<Rightarrow> exec_opts \<Rightarrow> unit io" where
  "exec e command opts fs =
     (case exec_oracle e command opts fs of
        (None, fs') \<Rightarrow> \<lparr>result = Inr (), files = fs', events = [Exec command opts]\<rparr>
      | (Some msg, fs') \<Rightarrow>
          \<lparr>result = Inl (ExecError msg), files = fs', events = [Exec command opts]\<rparr>)"

subsection \<open>Strings and buffers\<close>

text \<open>
  A string is held as the bytes of its UTF-8 form, so encoding and decoding change the
  type only. (On bytes that are not UTF-8 the decoder of the runtime would substitute
  U+FFFD; such a script file is outside the model.)
\<close>

definition utf8 :: "string \<Rightarrow> bytes" where
  "utf8 s = map (\<lambda>c. of_nat (of_char c)) s"

definition utf8_decode :: "bytes \<Rightarrow> string" where
  "utf8_decode bs = map (\<lambda>b. char_of (unat b)) bs"

definition hex_digit :: "nat \<Rightarrow> char" where
  "hex_digit n = ''0123456789abcdef'' ! n"

text \<open>\<^verbatim>\<open>buf.toString('hex')\<close>: two digits for every byte, the high half first.\<close>

definition toString_hex :: "bytes \<Rightarrow> string" where
  "toString_hex buf = concat (map (\<lambda>b. [hex_digit (unat b div 16), hex_digit (unat b mod 16)]) buf)"

definition decimal_digit :: "nat \<Rightarrow> char" where
  "decimal_digit n = ''0123456789'' ! n"

fun decimal :: "nat \<Rightarrow> string" where
  "decimal n = (if n < 10 then [decimal_digit n] else decimal (n div 10) @ [decimal_digit (n mod 10)])"

text \<open>An exit code inside a template literal: \<^verbatim>\<open>null\<close> or the number in decimal.\<close>

fun template_exitCode :: "nat option \<Rightarrow> string" where
  "template_exitCode None = ''null''"
| "template_exitCode (Some n) = decimal n"

definition newline :: string where
  "newline = [CHR 0x0A]"

definition dquote :: string where
  "dquote = [CHR 0x22]"

text \<open>U+2026 and U+2013, as the UTF-8 bytes of the source file.\<close>

definition ellipsis :: string where
  "ellipsis = [CHR 0xE2, CHR 0x80, CHR 0xA6]"

definition en_dash :: string where
  "en_dash = [CHR 0xE2, CHR 0x80, CHR 0x93]"

section \<open>\<^verbatim>\<open>cli.js\<close>\<close>

definition outDir :: "env \<Rightarrow> path" where
  "outDir e = path_join (dirname e) ''build-tmp-msix''"

definition scriptName :: string where
  "scriptName = ''main.js''"

definition seaBlobName :: string where
  "seaBlobName = ''sea-prep.blob''"

definition exeName :: string where
  "exeName = ''msixnode.exe''"

text \<open>
  \<^verbatim>\<open>readFileChecksum\<close> pipes the file into the hash and resolves with the first chunk the
  hash stream makes readable, which is the whole digest. Its \<^verbatim>\<open>'error'\<close> listener is on
  the hash stream, to which \<^verbatim>\<open>pipe\<close> forwards no error: a file that cannot be read makes
  the read stream emit \<^verbatim>\<open>'error'\<close> with no listener.
\<close>

definition readFileChecksum :: "env \<Rightarrow> path \<Rightarrow> filesys \<Rightarrow> js_error + string" where
  "readFileChecksum e filePath fs =
     (case fs filePath of
        None \<Rightarrow> Inl (Uncaught ''ENOENT'')
      | Some Dir \<Rightarrow> Inl (Uncaught ''EISDIR'')
      | Some (File bs) \<Rightarrow>
          (let buf = md5 e bs;
               hash = toString_hex buf
           in Inr hash))"

definition preload :: "env \<Rightarrow> string" where
  "preload e =
     newline @ ''__sea = true;'' @ newline @
     ''__srcdirname = '' @ JSON_stringify e (dirname e) @ '';'' @ newline"

definition prepareScript :: "env \<Rightarrow> unit io" where
  "prepareScript e =
     await (try_catch (await (reading (fs_stat (outDir e))) (\<lambda>_. return ()))
                      (\<lambda>_. fs_mkdir (outDir e)))
     (\<lambda>_. await (reading (fs_readFile (path_join (dirname e) ''msix-node.js'')))
     (\<lambda>buf.
        let script = utf8_decode buf;
            compiledScript = preload e @ script
        in fs_writeFile (path_join (outDir e) scriptName) (utf8 compiledScript)))"

text \<open>The regular expression \<^verbatim>\<open>/^v1\d\./\<close>.\<close>

definition is_digit :: "char \<Rightarrow> bool" where
  "is_digit c = (c \<in> set ''0123456789'')"

fun node_v1x :: "string \<Rightarrow> bool" where
  "node_v1x (a # b # c # d # _) =
     (a = CHR ''v'' \<and> b = CHR ''1'' \<and> is_digit c \<and> d = CHR ''.'')"
| "node_v1x _ = False"

definition seaConfig :: string where
  "seaConfig =
     ''{ '' @ dquote @ ''main'' @ dquote @ '': '' @ dquote @ scriptName @ dquote @
     '', '' @ dquote @ ''output'' @ dquote @ '': '' @ dquote @ seaBlobName @ dquote @ '' }''"

definition compileCommand :: string where
  "compileCommand = ''node --experimental-sea-config sea-config.json''"

definition postjectCommand :: string where
  "postjectCommand =
     ''npx postject '' @ exeName @ '' NODE_SEA_BLOB '' @ seaBlobName @
     '' --sentinel-fuse NODE_SEA_FUSE_fce680ab2cc467b6e072b8b5df1996b2''"

definition in_outDir :: "env \<Rightarrow> exec_opts" where
  "in_outDir e = \<lparr>cwd = Some (outDir e), shell = None\<rparr>"

definition createTestSea :: "env \<Rightarrow> bool io" where
  "createTestSea e =
     (if node_v1x (version e) then throw (Error ''Node v20 required to create executable.'')
      else
        await (fs_writeFile (path_join (outDir e) ''sea-config.json'') (utf8 seaConfig))
        (\<lambda>_.
        let seaBlobPath = path_join (outDir e) seaBlobName in
        await (try_catch
                 (await (reading (fs_stat seaBlobPath))
                  (\<lambda>seaBlobStat.
                     if isFile seaBlobStat then
                       await (reading (readFileChecksum e seaBlobPath)) (\<lambda>h. return (Some h))
                     else return None))
                 (\<lambda>_. return None))
        (\<lambda>prevBlobChecksum.
        await (exec e compileCommand (in_outDir e))
        (\<lambda>_.
        await (reading (readFileChecksum e seaBlobPath))
        (\<lambda>blobChecksum.
           if prevBlobChecksum = Some blobChecksum then
             await (emit (Console_debug
                      (''Skipping '' @ exeName @ '' rebuild (blob checksums match)'')))
             (\<lambda>_. return False)
           else
             await (fs_cp (execPath e) (path_join (outDir e) exeName))
             (\<lambda>_.
             await (emit (Console_info (''Building '' @ exeName @ ellipsis)))
             (\<lambda>_.
             await (exec e postjectCommand (in_outDir e))
             (\<lambda>_. return True))))))))"

definition registerCommand :: string where
  "registerCommand =
     ''Add-AppxPackage '' @ en_dash @ ''Register AppxManifest.xml -ForceUpdateFromAnyVersion''"

definition registerAppx :: "env \<Rightarrow> unit io" where
  "registerAppx e =
     await (emit (Console_log (''Registering Appx package'' @ ellipsis)))
     (\<lambda>_. exec e registerCommand \<lparr>cwd = None, shell = Some ''powershell.exe''\<rparr>)"

text \<open>
  \<^verbatim>\<open>runExe\<close> drops the first element of \<^verbatim>\<open>process.argv\<close>, spawns the executable by its
  bare name, relays the two streams and settles on the \<^verbatim>\<open>'exit'\<close> event. The child has
  no \<^verbatim>\<open>'error'\<close> listener.
\<close>

definition runExe :: "env \<Rightarrow> unit io" where
  "runExe e =
     await (emit (Console_log (''Running packaged node'' @ ellipsis @ newline)))
     (\<lambda>_ fs.
        let args = tl (argv e) in
        case spawn_oracle e exeName args fs of
          (SpawnFailed msg, fs') \<Rightarrow>
            \<lparr>result = Inl (Uncaught msg), files = fs', events = [Spawn exeName args]\<rparr>
        | (Exited exitCode out err, fs') \<Rightarrow>
            \<lparr>result =
               (if exitCode = Some 0 then Inr ()
                else Inl (Rejected (''msix-node exited with exitCode='' @
                                    template_exitCode exitCode))),
             files = fs',
             events = [Spawn exeName args, Stdout out, Stderr err]\<rparr>)"

definition main :: "env \<Rightarrow> unit io" where
  "main e =
     (if platform e \<noteq> ''win32'' then throw (Error ''msix-node only supported on Windows.'')
      else
        await (try_catch (prepareScript e)
                 (\<lambda>error. await (emit (Console_error ''Error compiling msix-node script.''))
                           (\<lambda>_. throw error)))
        (\<lambda>_.
        await (try_catch (createTestSea e)
                 (\<lambda>error. await (emit (Console_error ''Error creating node executable.''))
                           (\<lambda>_. throw error)))
        (\<lambda>updatedSea.
        await (if updatedSea then
                 try_catch (registerAppx e)
                   (\<lambda>error. await (emit (Console_error ''Error registering AppX package.''))
                             (\<lambda>_. throw error))
               else return ())
        (\<lambda>_. runExe e))))"

section \<open>Reading the effects of a run\<close>

text \<open>
  The Identity Registrar is the \<^verbatim>\<open>exec\<close> of the registration command, the Launcher the
  \<^verbatim>\<open>spawn\<close>, the host-binary copy the \<^verbatim>\<open>fs.cp\<close> and the patcher the \<^verbatim>\<open>exec\<close> of
  \<^verbatim>\<open>postject\<close>.
\<close>

fun is_registrar :: "event \<Rightarrow> bool" where
  "is_registrar (Exec command opts) = (command = registerCommand)"
| "is_registrar _ = False"

fun is_launch :: "event \<Rightarrow> bool" where
  "is_launch (Spawn file args) = True"
| "is_launch _ = False"

fun is_copy :: "event \<Rightarrow> bool" where
  "is_copy (Cp src dest) = True"
| "is_copy _ = False"

fun is_patch :: "event \<Rightarrow> bool" where
  "is_patch (Exec command opts) = (command = postjectCommand)"
| "is_patch _ = False"

definition registrar_calls :: "event list \<Rightarrow> nat" where
  "registrar_calls evs = length (filter is_registrar evs)"

definition launcher_calls :: "event list \<Rightarrow> nat" where
  "launcher_calls evs = length (filter is_launch evs)"

text \<open>
  Where an effect lands: a directory made, a file written or a copy made by the tool
  itself names its path; a tool started with \<^verbatim>\<open>exec\<close> works in the directory it is
  given, or in the directory of the process when it is given none.
\<close>

fun written_path :: "event \<Rightarrow> path option" where
  "written_path (Mkdir p) = Some p"
| "written_path (WriteFile p data) = Some p"
| "written_path (Cp src dest) = Some dest"
| "written_path _ = None"

fun workspace_event :: "env \<Rightarrow> event \<Rightarrow> bool" where
  "workspace_event e (Mkdir p) = (p = outDir e)"
| "workspace_event e (WriteFile p data) =
     (p = path_join (outDir e) scriptName \<or>
      p = path_join (outDir e) ''sea-config.json'' \<and> data = utf8 seaConfig)"
| "workspace_event e (Cp src dest) = (dest = path_join (outDir e) exeName)"
| "workspace_event e (Exec command opts) =
     (if command = registerCommand then cwd opts = None
      else (command = compileCommand \<or> command = postjectCommand) \<and>
           cwd opts = Some (outDir e))"
| "workspace_event e _ = True"

text \<open>
  The digest of the Blob Artifact that a file system holds, when it holds one as a
  regular file: the Previous Digest before the compiler runs, the New Digest after.
\<close>

definition blobDigest :: "env \<Rightarrow> filesys \<Rightarrow> string option" where
  "blobDigest e fs =
     (case fs (path_join (outDir e) seaBlobName) of
        Some (File bs) \<Rightarrow> Some (toString_hex (md5 e bs))
      | _ \<Rightarrow> None)"

section \<open>A sample installation\<close>

text \<open>
  A concrete environment on which the statements below are evaluated: the tool is
  installed in \<^verbatim>\<open>C:\tool\<close>, the stand-in for MD5 keeps the length and the first two bytes
  of its input, the stand-in compiler copies the staged script into the blob, the other
  tools succeed and change nothing, and the launched executable exits with code 0.
\<close>

definition sample_digest :: "bytes \<Rightarrow> bytes" where
  "sample_digest bs = of_nat (length bs) # take 2 bs"

definition sample_tools :: "string \<Rightarrow> exec_opts \<Rightarrow> filesys \<Rightarrow> string option \<times> filesys" where
  "sample_tools command opts fs =
     (if command = compileCommand then
        (case cwd opts of
           None \<Rightarrow> (Some ''no config'', fs)
         | Some d \<Rightarrow>
             (case fs (path_join d scriptName) of
                Some (File bs) \<Rightarrow> (None, fs(path_join d seaBlobName \<mapsto> File bs))
              | _ \<Rightarrow> (Some ''no entry script'', fs)))
      else (None, fs))"

definition failing_tools :: "string \<Rightarrow> exec_opts \<Rightarrow> filesys \<Rightarrow> string option \<times> filesys" where
  "failing_tools command opts fs = (Some ''Command failed'', fs)"

definition sample_env :: env where
  "sample_env =
     \<lparr>platform = ''win32'',
      version = ''v20.11.0'',
      execPath = [''C:'', ''nodejs'', ''node.exe''],
      argv = [''node.exe'', ''cli.js'', ''app.js''],
      dirname = [''C:'', ''tool''],
      md5 = sample_digest,
      JSON_stringify = (\<lambda>p. ''null''),
      exec_oracle = sample_tools,
      spawn_oracle = (\<lambda>file args fs. (Exited (Some 0) [] [], fs))\<rparr>"

definition sample_fs :: filesys where
  "sample_fs =
     [[''C:'', ''tool''] \<mapsto> Dir,
      [''C:'', ''tool'', ''msix-node.js''] \<mapsto> File (utf8 ''main();''),
      [''C:'', ''nodejs'', ''node.exe''] \<mapsto> File [77, 90]]"

text \<open>
  The same installation after the stager has run, before any blob exists, and after a
  whole build, with the blob and the executable of that build in the workspace.
\<close>

definition staged_fs :: filesys where
  "staged_fs =
     sample_fs
       ([''C:'', ''tool'', ''build-tmp-msix''] \<mapsto> Dir,
        [''C:'', ''tool'', ''build-tmp-msix'', ''main.js''] \<mapsto> File [1, 2, 3])"

definition built_fs :: filesys where
  "built_fs =
     staged_fs
       ([''C:'', ''tool'', ''build-tmp-msix'', ''sea-prep.blob''] \<mapsto> File [1, 2, 3],
        [''C:'', ''tool'', ''build-tmp-msix'', ''msixnode.exe''] \<mapsto> File [77, 90, 1, 2, 3])"

text \<open>
  Variants of the sample environment: every external tool fails; the runtime is Node 18;
  the host is not Windows; the launched executable exits with
  code 3; a signal ends the launched executable.
\<close>

definition failing_env :: env where
  "failing_env = sample_env\<lparr>exec_oracle := failing_tools\<rparr>"

definition node18_env :: env where
  "node18_env = sample_env\<lparr>version := ''v18.12.0''\<rparr>"

definition linux_env :: env where
  "linux_env = sample_env\<lparr>platform := ''linux''\<rparr>"

definition exit3_env :: env where
  "exit3_env = sample_env\<lparr>spawn_oracle := (\<lambda>file args fs. (Exited (Some 3) [] [], fs))\<rparr>"

definition killed_env :: env where
  "killed_env = sample_env\<lparr>spawn_oracle := (\<lambda>file args fs. (Exited None [] [], fs))\<rparr>"

section \<open>Rendering bytes and numbers\<close>

declare decimal.simps [simp del]

lemma hex_digit_lower: "n < 16 \<Longrightarrow> hex_digit n \<in> set ''0123456789abcdef''"
  unfolding hex_digit_def by (rule nth_mem) simp

lemma unat_byte_div: "unat (b :: byte) div 16 < 16"
proof -
  have "unat b < 2 ^ 8" using unsigned_less [of b] by simp
  then show ?thesis by simp
qed

lemma toString_hex_chars: "set (toString_hex buf) \<subseteq> set ''0123456789abcdef''"
proof (induction buf)
  case Nil
  show ?case by (simp add: toString_hex_def)
next
  case (Cons b buf)
  have hi: "hex_digit (unat b div 16) \<in> set ''0123456789abcdef''"
    by (rule hex_digit_lower) (rule unat_byte_div)
  have lo: "hex_digit (unat b mod 16) \<in> set ''0123456789abcdef''"
    by (rule hex_digit_lower) simp
  from Cons hi lo show ?case by (simp add: toString_hex_def)
qed

lemma length_toString_hex: "length (toString_hex buf) = 2 * length buf"
  by (induction buf) (simp_all add: toString_hex_def)

lemma decimal_digit_inj:
  "n < 10 \<Longrightarrow> m < 10 \<Longrightarrow> decimal_digit n = decimal_digit m \<Longrightarrow> n = m"
  unfolding decimal_digit_def
  by (simp add: nth_eq_iff_index_eq)

lemma decimal_digit_is_digit: "n < 10 \<Longrightarrow> is_digit (decimal_digit n)"
  unfolding decimal_digit_def is_digit_def by (rule nth_mem) simp

lemma decimal_digits: "list_all is_digit (decimal n)"
proof (induction n rule: decimal.induct)
  case (1 n)
  show ?case
  proof (cases "n < 10")
    case True
    then show ?thesis by (simp add: decimal.simps [of n] decimal_digit_is_digit)
  next
    case False
    with 1 show ?thesis by (simp add: decimal.simps [of n] decimal_digit_is_digit)
  qed
qed

lemma decimal_not_Nil: "decimal n \<noteq> []"
  by (subst decimal.simps) simp

lemma length_decimal_small: "length (decimal n) = 1 \<longleftrightarrow> n < 10"
  by (subst decimal.simps) (simp add: decimal_not_Nil)

lemma decimal_inj: "decimal n = decimal m \<Longrightarrow> n = m"
proof (induction n arbitrary: m rule: decimal.induct)
  case (1 n)
  show ?case
  proof (cases "n < 10")
    case True
    then have "length (decimal m) = 1" using "1.prems" [symmetric] length_decimal_small [of n] by simp
    then have m: "m < 10" using length_decimal_small [of m] by simp
    from True m "1.prems" show ?thesis
      by (simp add: decimal.simps [of n] decimal.simps [of m] decimal_digit_inj)
  next
    case False
    then have "length (decimal m) \<noteq> 1" using "1.prems" [symmetric] length_decimal_small [of n] by simp
    then have m: "\<not> m < 10" using length_decimal_small [of m] by simp
    from False m "1.prems"
    have eq: "decimal (n div 10) = decimal (m div 10)"
      and d: "decimal_digit (n mod 10) = decimal_digit (m mod 10)"
      by (simp_all add: decimal.simps [of n] decimal.simps [of m])
    from "1.IH" [OF False eq] have q: "n div 10 = m div 10" .
    from d have r: "n mod 10 = m mod 10" by (intro decimal_digit_inj) simp_all
    from q r show ?thesis by (metis div_mult_mod_eq)
  qed
qed

lemma decimal_not_null: "decimal n \<noteq> ''null''"
proof
  assume "decimal n = ''null''"
  with decimal_digits [of n] show False by (simp add: is_digit_def)
qed

lemma template_exitCode_inj: "template_exitCode c = template_exitCode d \<Longrightarrow> c = d"
  using decimal_not_null
  by (cases c; cases d) (auto dest: decimal_inj simp: decimal_not_null[symmetric])

lemma length_decimal_large: "100 \<le> n \<Longrightarrow> 3 \<le> length (decimal n)"
proof -
  assume n: "100 \<le> n"
  then have a: "\<not> n < 10" and b: "\<not> n div 10 < 10" by simp_all
  have "Suc 0 \<le> length (decimal (n div 10 div 10))"
    using decimal_not_Nil [of "n div 10 div 10"] by (cases "decimal (n div 10 div 10)") simp_all
  with a b show ?thesis
    by (simp add: decimal.simps [of n] decimal.simps [of "n div 10"])
qed

lemma decimal_two: "10 \<le> n \<Longrightarrow> n < 100 \<Longrightarrow>
  decimal n = [decimal_digit (n div 10), decimal_digit (n mod 10)]"
  by (simp add: decimal.simps [of n] decimal.simps [of "n div 10"])

lemma decimal_digit_one: "n < 10 \<Longrightarrow> decimal_digit n = CHR ''1'' \<longleftrightarrow> n = 1"
  using decimal_digit_inj [of n 1] by (auto simp: decimal_digit_def)

lemma node_v1x_decimal:
  "node_v1x (CHR ''v'' # decimal major @ CHR ''.'' # rest) \<longleftrightarrow> 10 \<le> major \<and> major \<le> 19"
proof -
  consider (one) "major < 10" | (two) "10 \<le> major" "major < 100" | (more) "100 \<le> major"
    by linarith
  then show ?thesis
  proof cases
    case one
    then show ?thesis
      by (cases rest) (simp_all add: decimal.simps [of major] is_digit_def)
  next
    case two
    have "major div 10 = 1 \<longleftrightarrow> major \<le> 19" using two by auto
    moreover have "major div 10 < 10" using two by simp
    moreover have "is_digit (decimal_digit (major mod 10))"
      by (rule decimal_digit_is_digit) simp
    ultimately show ?thesis using two
      by (simp add: decimal_two decimal_digit_one)
  next
    case more
    from length_decimal_large [OF more] obtain x y z zs where d: "decimal major = x # y # z # zs"
      by (cases "decimal major"; simp; rename_tac a as; case_tac as; simp; rename_tac b bs; case_tac bs; simp)
    with decimal_digits [of major] have "is_digit z" by simp
    then have "z \<noteq> CHR ''.''" by (auto simp: is_digit_def)
    with d more show ?thesis by simp
  qed
qed

section \<open>Sequencing\<close>

lemma return_run [simp]:
  "result (return x fs) = Inr x" "files (return x fs) = fs" "events (return x fs) = []"
  by (simp_all add: return_def)

lemma throw_run [simp]:
  "result (throw err fs) = Inl err" "files (throw err fs) = fs" "events (throw err fs) = []"
  by (simp_all add: throw_def)

lemma emit_run [simp]:
  "result (emit ev fs) = Inr ()" "files (emit ev fs) = fs" "events (emit ev fs) = [ev]"
  by (simp_all add: emit_def)

lemma reading_run [simp]:
  "result (reading f fs) = f fs" "files (reading f fs) = fs" "events (reading f fs) = []"
  by (simp_all add: reading_def)

lemma run_eqI:
  "result r = a \<Longrightarrow> files r = b \<Longrightarrow> events r = c \<Longrightarrow>
   (r :: 'a run) = \<lparr>result = a, files = b, events = c\<rparr>"
  by (cases r) simp

lemma run_eq_iff:
  "(r :: 'a run) = r' \<longleftrightarrow>
     result r = result r' \<and> files r = files r' \<and> events r = events r'"
  by (cases r; cases r') auto

lemma await_sel:
  "result (await m k fs) =
     (case result (m fs) of Inl err \<Rightarrow> Inl err | Inr x \<Rightarrow> result (k x (files (m fs))))"
  "files (await m k fs) =
     (case result (m fs) of Inl err \<Rightarrow> files (m fs) | Inr x \<Rightarrow> files (k x (files (m fs))))"
  "events (await m k fs) =
     (case result (m fs) of Inl err \<Rightarrow> events (m fs)
      | Inr x \<Rightarrow> events (m fs) @ events (k x (files (m fs))))"
  by (simp_all add: await_def Let_def split: sum.split)

lemma try_catch_sel:
  "result (try_catch m h fs) =
     (case result (m fs) of Inr x \<Rightarrow> Inr x
      | Inl err \<Rightarrow> if catchable err then result (h err (files (m fs))) else Inl err)"
  "files (try_catch m h fs) =
     (case result (m fs) of Inr x \<Rightarrow> files (m fs)
      | Inl err \<Rightarrow> if catchable err then files (h err (files (m fs))) else files (m fs))"
  "events (try_catch m h fs) =
     (case result (m fs) of Inr x \<Rightarrow> events (m fs)
      | Inl err \<Rightarrow> if catchable err then events (m fs) @ events (h err (files (m fs)))
                  else events (m fs))"
  by (auto simp add: try_catch_def Let_def split: sum.split)

lemma exec_sel:
  "result (exec e command opts fs) =
     (case fst (exec_oracle e command opts fs) of None \<Rightarrow> Inr () | Some msg \<Rightarrow> Inl (ExecError msg))"
  "files (exec e command opts fs) = snd (exec_oracle e command opts fs)"
  by (simp_all add: exec_def split: prod.split option.split)

lemma result_await_Inl:
  "result (await m k fs) = Inl err \<longleftrightarrow>
     result (m fs) = Inl err \<or>
     (\<exists>x. result (m fs) = Inr x \<and> result (k x (files (m fs))) = Inl err)"
  by (cases "result (m fs)") (simp_all add: await_def Let_def)

lemma events_await_all:
  assumes "list_all P (events (m fs))"
    and "\<And>x fs'. list_all P (events (k x fs'))"
  shows "list_all P (events (await m k fs))"
  using assms by (cases "result (m fs)") (simp_all add: await_def Let_def)

lemma events_try_catch_all:
  assumes "list_all P (events (m fs))"
    and "\<And>err fs'. list_all P (events (h err fs'))"
  shows "list_all P (events (try_catch m h fs))"
  using assms by (cases "result (m fs)") (simp_all add: try_catch_def Let_def)

lemma events_fs_mkdir [simp]: "events (fs_mkdir p fs) = [Mkdir p]"
  by (simp add: fs_mkdir_def split: option.split)

lemma events_fs_writeFile [simp]: "events (fs_writeFile p data fs) = [WriteFile p data]"
  by (simp add: fs_writeFile_def split: option.split)

lemma events_fs_cp [simp]: "events (fs_cp src dest fs) = [Cp src dest]"
  by (simp add: fs_cp_def split: option.split node.split sum.split)

lemma events_exec [simp]: "events (exec e command opts fs) = [Exec command opts]"
  by (simp add: exec_def split: prod.split option.split)

section \<open>The errors of the library calls\<close>

lemma mkdir_recursive_error:
  "mkdir_recursive pre ss fs = Inl err \<Longrightarrow> err = SystemError ''ENOTDIR''"
  by (induction pre ss fs rule: mkdir_recursive.induct)
     (auto split: option.splits node.splits)

lemma fs_writeFile_error: "result (fs_writeFile p data fs) = Inl err \<Longrightarrow> \<exists>code. err = SystemError code"
  by (auto simp: fs_writeFile_def split: if_splits option.splits)

lemma fs_cp_error: "result (fs_cp src dest fs) = Inl err \<Longrightarrow> \<exists>code. err = SystemError code"
  by (auto simp: fs_cp_def split: if_splits option.splits node.splits sum.splits
      dest: mkdir_recursive_error)

lemma exec_error: "result (exec e command opts fs) = Inl err \<Longrightarrow> \<exists>msg. err = ExecError msg"
  by (auto simp: exec_def split: prod.splits option.splits)

lemma readFileChecksum_error: "readFileChecksum e p fs = Inl err \<Longrightarrow> \<exists>msg. err = Uncaught msg"
  by (auto simp: readFileChecksum_def split: option.splits node.splits)

lemma fs_writeFile_ok:
  "result (fs_writeFile p data fs) = Inr () \<Longrightarrow> files (fs_writeFile p data fs) = fs(p \<mapsto> File data)"
  by (simp add: fs_writeFile_def split: if_splits option.splits)


section \<open>The effects each step can have\<close>

lemma prepareScript_events_all:
  assumes "P (Mkdir (outDir e))"
    and "\<And>data. P (WriteFile (path_join (outDir e) scriptName) data)"
  shows "list_all P (events (prepareScript e fs))"
  unfolding prepareScript_def
  apply (intro events_await_all events_try_catch_all)
  using assms by (simp_all add: Let_def)

lemma createTestSea_events_all:
  assumes "P (WriteFile (path_join (outDir e) ''sea-config.json'') (utf8 seaConfig))"
    and "P (Exec compileCommand (in_outDir e))"
    and "P (Console_debug (''Skipping '' @ exeName @ '' rebuild (blob checksums match)''))"
    and "P (Cp (execPath e) (path_join (outDir e) exeName))"
    and "P (Console_info (''Building '' @ exeName @ ellipsis))"
    and "P (Exec postjectCommand (in_outDir e))"
  shows "list_all P (events (createTestSea e fs))"
proof (cases "node_v1x (version e)")
  case True
  then show ?thesis by (simp add: createTestSea_def)
next
  case False
  have tail: "list_all P (events ((if c then
             await (emit (Console_debug
                      (''Skipping '' @ exeName @ '' rebuild (blob checksums match)'')))
             (\<lambda>_. return False)
           else
             await (fs_cp (execPath e) (path_join (outDir e) exeName))
             (\<lambda>_.
             await (emit (Console_info (''Building '' @ exeName @ ellipsis)))
             (\<lambda>_.
             await (exec e postjectCommand (in_outDir e))
             (\<lambda>_. return True)))) fs'))" for c fs'
    apply (cases c; simp only: if_True if_False; intro events_await_all)
    using assms by simp_all
  have prev: "list_all P (events ((if c then
                       await (reading (readFileChecksum e p)) (\<lambda>h. return (Some h))
                     else return None) fs'))" for c p fs'
    by (cases c) (auto intro!: events_await_all)
  from False show ?thesis
    unfolding createTestSea_def Let_def
    apply (simp only: if_False)
    apply (intro events_await_all events_try_catch_all tail prev)
    using assms by simp_all
qed

lemma registerAppx_events_all:
  assumes "P (Console_log (''Registering Appx package'' @ ellipsis))"
    and "P (Exec registerCommand \<lparr>cwd = None, shell = Some ''powershell.exe''\<rparr>)"
  shows "list_all P (events (registerAppx e fs))"
  unfolding registerAppx_def
  apply (intro events_await_all)
  using assms by simp_all

lemma registerAppx_events:
  "events (registerAppx e fs) =
     [Console_log (''Registering Appx package'' @ ellipsis),
      Exec registerCommand \<lparr>cwd = None, shell = Some ''powershell.exe''\<rparr>]"
  by (simp add: registerAppx_def await_sel)

lemma runExe_events:
  "events (runExe e fs) =
     Console_log (''Running packaged node'' @ ellipsis @ newline) #
     (case fst (spawn_oracle e exeName (tl (argv e)) fs) of
        SpawnFailed msg \<Rightarrow> [Spawn exeName (tl (argv e))]
      | Exited exitCode out err \<Rightarrow> [Spawn exeName (tl (argv e)), Stdout out, Stderr err])"
  by (simp add: runExe_def await_def Let_def split: prod.split child.split)

lemma commands_distinct [simp]:
  "compileCommand \<noteq> registerCommand" "postjectCommand \<noteq> registerCommand"
  "registerCommand \<noteq> postjectCommand" "compileCommand \<noteq> postjectCommand"
  by (simp_all add: compileCommand_def registerCommand_def postjectCommand_def)

lemma calls_append [simp]:
  "registrar_calls (xs @ ys) = registrar_calls xs + registrar_calls ys"
  "launcher_calls (xs @ ys) = launcher_calls xs + launcher_calls ys"
  by (simp_all add: registrar_calls_def launcher_calls_def)

lemma filter_none: "list_all (\<lambda>ev. \<not> P ev) evs \<Longrightarrow> filter P evs = []"
  by (induction evs) simp_all

lemma prepareScript_calls [simp]:
  "registrar_calls (events (prepareScript e fs)) = 0"
  "launcher_calls (events (prepareScript e fs)) = 0"
  unfolding registrar_calls_def launcher_calls_def
  by (simp_all add: filter_none prepareScript_events_all)

lemma createTestSea_calls [simp]:
  "registrar_calls (events (createTestSea e fs)) = 0"
  "launcher_calls (events (createTestSea e fs)) = 0"
  unfolding registrar_calls_def launcher_calls_def
  by (simp_all add: filter_none createTestSea_events_all)

lemma registerAppx_calls [simp]:
  "registrar_calls (events (registerAppx e fs)) = 1"
  "launcher_calls (events (registerAppx e fs)) = 0"
  by (simp_all add: registerAppx_events registrar_calls_def launcher_calls_def)

lemma runExe_calls [simp]:
  "registrar_calls (events (runExe e fs)) = 0"
  "launcher_calls (events (runExe e fs)) = 1"
  by (simp_all add: runExe_events registrar_calls_def launcher_calls_def split: child.split)

lemma console_calls [simp]:
  "registrar_calls [Console_error msg] = 0" "launcher_calls [Console_error msg] = 0"
  "registrar_calls [] = 0" "launcher_calls [] = 0"
  by (simp_all add: registrar_calls_def launcher_calls_def)

lemma workspace_prepareScript: "list_all (workspace_event e) (events (prepareScript e fs))"
  by (rule prepareScript_events_all) simp_all

lemma workspace_createTestSea: "list_all (workspace_event e) (events (createTestSea e fs))"
  by (rule createTestSea_events_all) (simp_all add: in_outDir_def)

lemma workspace_registerAppx: "list_all (workspace_event e) (events (registerAppx e fs))"
  by (rule registerAppx_events_all) simp_all

lemma workspace_runExe: "list_all (workspace_event e) (events (runExe e fs))"
  by (simp add: runExe_events split: child.split)

lemma workspace_registration:
  "list_all (workspace_event e)
     (events ((if updatedSea then
                 try_catch (registerAppx e)
                   (\<lambda>error. await (emit (Console_error ''Error registering AppX package.''))
                             (\<lambda>_. throw error))
               else return ()) fs))"
proof (cases updatedSea)
  case True
  have "list_all (workspace_event e)
          (events (try_catch (registerAppx e)
                     (\<lambda>error. await (emit (Console_error ''Error registering AppX package.''))
                               (\<lambda>_. throw error)) fs))"
    by (intro events_try_catch_all events_await_all workspace_registerAppx) simp_all
  with True show ?thesis by (simp only: if_True)
next
  case False
  then show ?thesis by simp
qed

section \<open>The assemble step, run by hand\<close>

lemma path_join_inject [simp]: "path_join d a = path_join d b \<longleftrightarrow> a = b"
  by (simp add: path_join_def)

lemma names_distinct [simp]:
  "seaBlobName \<noteq> ''sea-config.json''" "''sea-config.json'' \<noteq> seaBlobName"
  "exeName \<noteq> ''sea-config.json''" "''sea-config.json'' \<noteq> exeName"
  "exeName \<noteq> seaBlobName" "seaBlobName \<noteq> exeName"
  "scriptName \<noteq> exeName" "exeName \<noteq> scriptName"
  by (simp_all add: seaBlobName_def exeName_def scriptName_def)

text \<open>The digest of the blob left by the previous run, as the \<^verbatim>\<open>try\<close> block finds it.\<close>

lemma previous_digest:
  "try_catch
     (await (reading (fs_stat p))
        (\<lambda>seaBlobStat.
           if isFile seaBlobStat then
             await (reading (readFileChecksum e p)) (\<lambda>h. return (Some h))
           else return None))
     (\<lambda>_. return None) fs =
   \<lparr>result = Inr (case fs p of Some (File old) \<Rightarrow> Some (toString_hex (md5 e old)) | _ \<Rightarrow> None),
    files = fs, events = []\<rparr>"
  by (rule run_eqI)
     (simp_all add: try_catch_sel await_sel fs_stat_def readFileChecksum_def Let_def
      split: option.split node.split)

lemma createTestSea_compile_fails:
  assumes gate: "\<not> node_v1x (version e)"
    and config: "result (fs_writeFile (path_join (outDir e) ''sea-config.json'') (utf8 seaConfig) fs) = Inr ()"
    and compile: "exec_oracle e compileCommand (in_outDir e)
                    (fs(path_join (outDir e) ''sea-config.json'' \<mapsto> File (utf8 seaConfig))) = (Some msg, fs2)"
  shows "createTestSea e fs =
     \<lparr>result = Inl (ExecError msg), files = fs2,
      events = [WriteFile (path_join (outDir e) ''sea-config.json'') (utf8 seaConfig),
                Exec compileCommand (in_outDir e)]\<rparr>"
  using gate config compile fs_writeFile_ok [OF config]
  by (intro run_eqI) (simp_all add: createTestSea_def await_sel Let_def previous_digest exec_sel)

lemma createTestSea_skip:
  assumes gate: "\<not> node_v1x (version e)"
    and config: "result (fs_writeFile (path_join (outDir e) ''sea-config.json'') (utf8 seaConfig) fs) = Inr ()"
    and old: "fs (path_join (outDir e) seaBlobName) = Some (File old)"
    and compile: "exec_oracle e compileCommand (in_outDir e)
                    (fs(path_join (outDir e) ''sea-config.json'' \<mapsto> File (utf8 seaConfig))) = (None, fs2)"
    and new: "fs2 (path_join (outDir e) seaBlobName) = Some (File new)"
    and same: "toString_hex (md5 e old) = toString_hex (md5 e new)"
  shows "createTestSea e fs =
     \<lparr>result = Inr False, files = fs2,
      events = [WriteFile (path_join (outDir e) ''sea-config.json'') (utf8 seaConfig),
                Exec compileCommand (in_outDir e),
                Console_debug (''Skipping '' @ exeName @ '' rebuild (blob checksums match)'')]\<rparr>"
  using gate config old compile new same fs_writeFile_ok [OF config]
  by (intro run_eqI)
     (simp_all add: createTestSea_def await_sel Let_def previous_digest exec_sel readFileChecksum_def)

lemma createTestSea_skip_digest:
  assumes gate: "\<not> node_v1x (version e)"
    and config: "result (fs_writeFile (path_join (outDir e) ''sea-config.json'') (utf8 seaConfig) fs) = Inr ()"
    and compile: "exec_oracle e compileCommand (in_outDir e)
                    (fs(path_join (outDir e) ''sea-config.json'' \<mapsto> File (utf8 seaConfig))) = (None, fs2)"
    and new: "blobDigest e fs2 = Some d"
    and previous: "blobDigest e fs = Some d"
  shows "createTestSea e fs =
     \<lparr>result = Inr False, files = fs2,
      events = [WriteFile (path_join (outDir e) ''sea-config.json'') (utf8 seaConfig),
                Exec compileCommand (in_outDir e),
                Console_debug (''Skipping '' @ exeName @ '' rebuild (blob checksums match)'')]\<rparr>"
proof -
  let ?blob = "path_join (outDir e) seaBlobName"
  from previous obtain old where old: "fs ?blob = Some (File old)" "d = toString_hex (md5 e old)"
    by (auto simp: blobDigest_def split: option.splits node.splits)
  from new obtain bs where bs: "fs2 ?blob = Some (File bs)" "d = toString_hex (md5 e bs)"
    by (auto simp: blobDigest_def split: option.splits node.splits)
  from old bs have "toString_hex (md5 e old) = toString_hex (md5 e bs)" by simp
  from createTestSea_skip [OF gate config old(1) compile bs(1) this] show ?thesis .
qed


text \<open>Past its first statement, \<^verbatim>\<open>createTestSea\<close> throws no \<^verbatim>\<open>Error\<close> of its own.\<close>

lemma createTestSea_Error:
  assumes "result (createTestSea e fs) = Inl (Error msg)"
  shows "node_v1x (version e) \<and> msg = ''Node v20 required to create executable.''"
proof (cases "node_v1x (version e)")
  case True
  with assms show ?thesis by (simp add: createTestSea_def)
next
  case False
  with assms show ?thesis
    unfolding createTestSea_def Let_def
    by (auto simp: result_await_Inl previous_digest
        dest!: fs_writeFile_error fs_cp_error exec_error readFileChecksum_error
        split: if_splits)
qed

section \<open>The sample installation, evaluated\<close>

lemma sample_outDir: "outDir sample_env = [''C:'', ''tool'', ''build-tmp-msix'']"
  by (simp add: outDir_def path_join_def sample_env_def)

lemmas sample_paths =
  sample_outDir path_join_def seaBlobName_def exeName_def scriptName_def
  sample_fs_def staged_fs_def built_fs_def

lemmas sample_eval =
  main_def prepareScript_def createTestSea_def registerAppx_def runExe_def
  await_def try_catch_def return_def throw_def reading_def emit_def Let_def
  fs_stat_def fs_mkdir_def fs_readFile_def fs_writeFile_def fs_cp_def parent_error_def
  exec_def readFileChecksum_def
  sample_env_def sample_tools_def sample_digest_def sample_fs_def staged_fs_def built_fs_def
  failing_env_def failing_tools_def node18_env_def linux_env_def exit3_env_def
  outDir_def path_join_def in_outDir_def scriptName_def seaBlobName_def exeName_def
  compileCommand_def postjectCommand_def registerCommand_def
  is_digit_def

lemma sample_gate: "\<not> node_v1x (version sample_env)"
  by (simp add: sample_env_def is_digit_def)

lemma built_config:
  "result (fs_writeFile (path_join (outDir sample_env) ''sea-config.json'') (utf8 seaConfig) built_fs) = Inr ()"
  by (simp add: sample_paths fs_writeFile_def parent_error_def)


lemma sample_compile:
  assumes "fs [''C:'', ''tool'', ''build-tmp-msix'', ''main.js''] = Some (File bs)"
  shows "exec_oracle sample_env compileCommand (in_outDir sample_env) fs =
           (None, fs([''C:'', ''tool'', ''build-tmp-msix'', ''sea-prep.blob''] \<mapsto> File bs))"
  using assms
  by (simp add: sample_env_def sample_tools_def in_outDir_def outDir_def path_join_def
      scriptName_def seaBlobName_def)

section \<open>The claims\<close>



text \<open>
  C2. When the blob left by the previous run and the blob the compiler has just built
  have equal digests (as they have when their contents are identical), the assemble step
  returns \<open>False\<close>; its only effects are the write of the build config, the run of the
  compiler and a debug line, so there is no copy of the host binary and no run of the
  patcher, and the file system it leaves is the one the compiler left. A compiler that
  did not touch the executable leaves it as it was before the step.
\<close>

theorem skip_leaves_executable:
  assumes gate: "\<not> node_v1x (version e)"
    and config: "result (fs_writeFile (path_join (outDir e) ''sea-config.json'') (utf8 seaConfig) fs) = Inr ()"
    and compile: "exec_oracle e compileCommand (in_outDir e)
                    (fs(path_join (outDir e) ''sea-config.json'' \<mapsto> File (utf8 seaConfig))) = (None, fs2)"
    and new: "blobDigest e fs2 = Some d"
    and previous: "blobDigest e fs = Some d"
  shows "createTestSea e fs =
           \<lparr>result = Inr False, files = fs2,
            events = [WriteFile (path_join (outDir e) ''sea-config.json'') (utf8 seaConfig),
                      Exec compileCommand (in_outDir e),
                      Console_debug (''Skipping '' @ exeName @ '' rebuild (blob checksums match)'')]\<rparr> \<and>
         filter is_copy (events (createTestSea e fs)) = [] \<and>
         filter is_patch (events (createTestSea e fs)) = [] \<and>
         (fs2 (path_join (outDir e) exeName) = fs (path_join (outDir e) exeName) \<longrightarrow>
          files (createTestSea e fs) (path_join (outDir e) exeName) = fs (path_join (outDir e) exeName))"
  by (simp add: createTestSea_skip_digest [OF gate config compile new previous])

theorem skip_leaves_executable_witness:
  "result (createTestSea sample_env built_fs) = Inr False \<and>
   filter is_copy (events (createTestSea sample_env built_fs)) = [] \<and>
   filter is_patch (events (createTestSea sample_env built_fs)) = [] \<and>
   files (createTestSea sample_env built_fs) [''C:'', ''tool'', ''build-tmp-msix'', ''msixnode.exe''] =
     Some (File [77, 90, 1, 2, 3])"
proof -
  let ?fs1 = "built_fs([''C:'', ''tool'', ''build-tmp-msix'', ''sea-config.json''] \<mapsto> File (utf8 seaConfig))"
  let ?fs2 = "?fs1([''C:'', ''tool'', ''build-tmp-msix'', ''sea-prep.blob''] \<mapsto> File [1, 2, 3])"
  have compile: "exec_oracle sample_env compileCommand (in_outDir sample_env)
      (built_fs(path_join (outDir sample_env) ''sea-config.json'' \<mapsto> File (utf8 seaConfig))) = (None, ?fs2)"
    using sample_compile [of ?fs1 "[1, 2, 3]"] by (simp add: sample_paths)
  have new: "blobDigest sample_env ?fs2 = Some ''030102''"
    by (simp add: blobDigest_def outDir_def sample_paths sample_env_def sample_digest_def toString_hex_def hex_digit_def)
  have previous: "blobDigest sample_env built_fs = Some ''030102''"
    by (simp add: blobDigest_def outDir_def sample_paths sample_env_def sample_digest_def toString_hex_def hex_digit_def)
  from skip_leaves_executable [OF sample_gate built_config compile new previous]
  show ?thesis by (simp add: sample_paths)
qed

text \<open>
  C3, as the code has it. The check of the host operating system is the first statement
  of \<^verbatim>\<open>main\<close>: when it fails the run ends with no effect at all. The check of the runtime
  version is the first statement of \<^verbatim>\<open>createTestSea\<close>: when it fails that step ends with
  no effect, so no build config is written and no tool is run; but \<^verbatim>\<open>main\<close> calls the
  stager first, and the run ends with the effects of the stager (the workspace directory
  and the staged script) and one line on the console.
\<close>

theorem environment_checks:
  "(platform e \<noteq> ''win32'' \<longrightarrow>
      main e fs =
        \<lparr>result = Inl (Error ''msix-node only supported on Windows.''), files = fs, events = []\<rparr>) \<and>
   (node_v1x (version e) \<longrightarrow>
      createTestSea e fs =
        \<lparr>result = Inl (Error ''Node v20 required to create executable.''), files = fs,
         events = []\<rparr>) \<and>
   (platform e = ''win32'' \<and> result (prepareScript e fs) = Inr () \<and> node_v1x (version e) \<longrightarrow>
      main e fs =
        \<lparr>result = Inl (Error ''Node v20 required to create executable.''),
         files = files (prepareScript e fs),
         events = events (prepareScript e fs) @ [Console_error ''Error creating node executable.'']\<rparr>)"
  by (simp add: run_eq_iff main_def createTestSea_def await_sel try_catch_sel)

theorem environment_checks_witness:
  "main linux_env sample_fs =
     \<lparr>result = Inl (Error ''msix-node only supported on Windows.''), files = sample_fs,
      events = []\<rparr> \<and>
   main node18_env sample_fs =
     \<lparr>result = Inl (Error ''Node v20 required to create executable.''),
      files = files (prepareScript node18_env sample_fs),
      events = events (prepareScript node18_env sample_fs) @
               [Console_error ''Error creating node executable.'']\<rparr>"
proof -
  have l: "platform linux_env \<noteq> ''win32''"
    by (simp add: linux_env_def sample_env_def)
  have w: "platform node18_env = ''win32''"
    by (simp add: node18_env_def sample_env_def)
  have p: "result (prepareScript node18_env sample_fs) = Inr ()"
    by (simp add: sample_eval)
  have v: "node_v1x (version node18_env)"
    by (simp add: node18_env_def sample_env_def is_digit_def)
  from environment_checks [of linux_env sample_fs] environment_checks [of node18_env sample_fs]
    l w p v
  show ?thesis by simp
qed

text \<open>
  The claim as the specification states it fails on Node 18 under Windows: the version
  check fails, and by then the run has made the workspace directory and written the
  staged script.
\<close>

theorem version_check_after_staging:
  "platform node18_env = ''win32'' \<and> node_v1x (version node18_env) \<and>
   result (main node18_env sample_fs) = Inl (Error ''Node v20 required to create executable.'') \<and>
   events (main node18_env sample_fs) =
     [Mkdir [''C:'', ''tool'', ''build-tmp-msix''],
      WriteFile [''C:'', ''tool'', ''build-tmp-msix'', ''main.js'']
        (utf8 (preload node18_env @ ''main();'')),
      Console_error ''Error creating node executable.''] \<and>
   sample_fs [''C:'', ''tool'', ''build-tmp-msix''] = None \<and>
   files (main node18_env sample_fs) [''C:'', ''tool'', ''build-tmp-msix''] = Some Dir \<and>
   sample_fs [''C:'', ''tool'', ''build-tmp-msix'', ''main.js''] = None \<and>
   files (main node18_env sample_fs) [''C:'', ''tool'', ''build-tmp-msix'', ''main.js''] =
     Some (File (utf8 (preload node18_env @ ''main();'')))"
  by (simp add: sample_eval preload_def utf8_def utf8_decode_def newline_def)

text \<open>
  C4. The gate is the regular expression \<^verbatim>\<open>/^v1\d\./\<close> on \<^verbatim>\<open>process.version\<close>, the
  version \<^verbatim>\<open>v<major>.<rest>\<close> of the runtime that is executing \<^verbatim>\<open>cli.js\<close>. That
  runtime has a major version of at least 10: an older one does not parse the file
  (\<^verbatim>\<open>catch\<close> without a binding) and cannot reach the gate. For every such version the
  assemble step throws \<^verbatim>\<open>Node v20 required to create executable.\<close> exactly when the
  major version is below 20: it throws for 10 to 19 and does not throw it from 20 on.
\<close>

theorem version_gate_minimum:
  assumes "version e = CHR ''v'' # decimal major @ CHR ''.'' # rest"
    and "10 \<le> major"
  shows "result (createTestSea e fs) = Inl (Error ''Node v20 required to create executable.'') \<longleftrightarrow>
         major < 20"
proof -
  from assms have gate: "node_v1x (version e) \<longleftrightarrow> major < 20"
    by (auto simp only: node_v1x_decimal)
  show ?thesis
  proof
    assume "result (createTestSea e fs) = Inl (Error ''Node v20 required to create executable.'')"
    from createTestSea_Error [OF this] gate show "major < 20" by simp
  next
    assume "major < 20"
    with gate show "result (createTestSea e fs) = Inl (Error ''Node v20 required to create executable.'')"
      by (simp add: createTestSea_def)
  qed
qed

theorem version_gate_minimum_witness:
  "result (createTestSea node18_env staged_fs) = Inl (Error ''Node v20 required to create executable.'') \<and>
   result (createTestSea sample_env staged_fs) \<noteq> Inl (Error ''Node v20 required to create executable.'')"
  using version_gate_minimum [of node18_env 18 "''12.0''" staged_fs]
    version_gate_minimum [of sample_env 20 "''11.0''" staged_fs]
  by (simp add: node18_env_def sample_env_def decimal.simps decimal_digit_def)

text \<open>
  C5. The registration command runs once when the stager and the assemble step have
  succeeded and the assemble step returned \<open>True\<close>, and not at all in any other run.
  When the assemble step returned \<open>False\<close> the executable is launched all the same, and
  the run ends as the launch ends.
\<close>

theorem registrar_iff_rebuilt:
  "registrar_calls (events (main e fs)) =
     (if platform e = ''win32'' \<and> result (prepareScript e fs) = Inr () \<and>
         result (createTestSea e (files (prepareScript e fs))) = Inr True
      then 1 else 0) \<and>
   (platform e = ''win32'' \<and> result (prepareScript e fs) = Inr () \<and>
    result (createTestSea e (files (prepareScript e fs))) = Inr False \<longrightarrow>
      launcher_calls (events (main e fs)) = 1 \<and>
      result (main e fs) = result (runExe e (files (createTestSea e (files (prepareScript e fs))))))"
  by (simp add: main_def await_sel try_catch_sel split: sum.split)

theorem registrar_iff_rebuilt_witness:
  "registrar_calls (events (main sample_env sample_fs)) = 1 \<and>
   registrar_calls (events (main sample_env (files (main sample_env sample_fs)))) = 0 \<and>
   launcher_calls (events (main sample_env (files (main sample_env sample_fs)))) = 1"
proof -
  let ?fs = "files (main sample_env sample_fs)"
  have w: "platform sample_env = ''win32''"
    by (simp add: sample_env_def)
  have p1: "result (prepareScript sample_env sample_fs) = Inr ()"
    by (simp add: sample_eval)
  have c1: "result (createTestSea sample_env (files (prepareScript sample_env sample_fs))) = Inr True"
    by (simp add: sample_eval)
  have p2: "result (prepareScript sample_env ?fs) = Inr ()"
    by (simp add: sample_eval)
  have c2: "result (createTestSea sample_env (files (prepareScript sample_env ?fs))) = Inr False"
    by (simp add: sample_eval)
  from registrar_iff_rebuilt [of sample_env sample_fs] registrar_iff_rebuilt [of sample_env ?fs]
    w p1 c1 p2 c2
  show ?thesis by simp
qed

text \<open>
  C6. When the assemble step fails, the run of \<^verbatim>\<open>main\<close> ends with that failure, in the
  file system the assemble step left, and neither the registration command nor the
  launcher has run.
\<close>

theorem assemble_failure_is_fatal:
  assumes "platform e = ''win32''"
    and "result (prepareScript e fs) = Inr ()"
    and "result (createTestSea e (files (prepareScript e fs))) = Inl err"
  shows "result (main e fs) = Inl err \<and>
         files (main e fs) = files (createTestSea e (files (prepareScript e fs))) \<and>
         registrar_calls (events (main e fs)) = 0 \<and>
         launcher_calls (events (main e fs)) = 0"
  using assms by (simp add: main_def await_sel try_catch_sel)

theorem assemble_failure_is_fatal_witness:
  "result (main failing_env sample_fs) = Inl (ExecError ''Command failed'') \<and>
   registrar_calls (events (main failing_env sample_fs)) = 0 \<and>
   launcher_calls (events (main failing_env sample_fs)) = 0"
proof -
  have w: "platform failing_env = ''win32''"
    by (simp add: failing_env_def sample_env_def)
  have p: "result (prepareScript failing_env sample_fs) = Inr ()"
    by (simp add: sample_eval)
  have c: "result (createTestSea failing_env (files (prepareScript failing_env sample_fs))) =
             Inl (ExecError ''Command failed'')"
    by (simp add: sample_eval)
  from assemble_failure_is_fatal [OF w p c] show ?thesis by simp
qed

text \<open>
  C7. When the compiler started by \<^verbatim>\<open>exec\<close> fails, the assemble step ends with that
  failure right there: its only effects are the write of the build config and the run of
  the compiler, so there is no copy of the host binary and no run of the patcher, and the
  file system it leaves is the one the compiler left. A compiler that did not touch the
  executable leaves it as it was before the step.
\<close>

theorem compile_failure_aborts:
  assumes gate: "\<not> node_v1x (version e)"
    and config: "result (fs_writeFile (path_join (outDir e) ''sea-config.json'') (utf8 seaConfig) fs) = Inr ()"
    and compile: "exec_oracle e compileCommand (in_outDir e)
                    (fs(path_join (outDir e) ''sea-config.json'' \<mapsto> File (utf8 seaConfig))) = (Some msg, fs2)"
  shows "createTestSea e fs =
           \<lparr>result = Inl (ExecError msg), files = fs2,
            events = [WriteFile (path_join (outDir e) ''sea-config.json'') (utf8 seaConfig),
                      Exec compileCommand (in_outDir e)]\<rparr> \<and>
         filter is_copy (events (createTestSea e fs)) = [] \<and>
         filter is_patch (events (createTestSea e fs)) = [] \<and>
         (fs2 (path_join (outDir e) exeName) = fs (path_join (outDir e) exeName) \<longrightarrow>
          files (createTestSea e fs) (path_join (outDir e) exeName) = fs (path_join (outDir e) exeName))"
  by (simp add: createTestSea_compile_fails [OF gate config compile])

theorem compile_failure_aborts_witness:
  "result (createTestSea failing_env built_fs) = Inl (ExecError ''Command failed'') \<and>
   filter is_copy (events (createTestSea failing_env built_fs)) = [] \<and>
   filter is_patch (events (createTestSea failing_env built_fs)) = [] \<and>
   files (createTestSea failing_env built_fs) [''C:'', ''tool'', ''build-tmp-msix'', ''msixnode.exe''] =
     Some (File [77, 90, 1, 2, 3])"
  using compile_failure_aborts [of failing_env built_fs "''Command failed''"
      "built_fs([''C:'', ''tool'', ''build-tmp-msix'', ''sea-config.json''] \<mapsto> File (utf8 seaConfig))"]
  by (simp add: failing_env_def failing_tools_def sample_env_def outDir_def sample_paths
      fs_writeFile_def parent_error_def is_digit_def)

text \<open>
  C8. When the child exits, \<^verbatim>\<open>runExe\<close> resolves if the exit code is 0 and otherwise
  rejects with a message that ends with the exit code as the template literal renders it
  (\<^verbatim>\<open>null\<close> when a signal ended the child); no two exit codes are rendered alike, so
  the message carries the code.
\<close>

theorem runExe_exit_code:
  assumes "spawn_oracle e exeName (tl (argv e)) fs = (Exited exitCode out err, fs')"
  shows "result (runExe e fs) =
           (if exitCode = Some 0 then Inr ()
            else Inl (Rejected (''msix-node exited with exitCode='' @ template_exitCode exitCode))) \<and>
         (\<forall>c. template_exitCode c = template_exitCode exitCode \<longrightarrow> c = exitCode)"
  using assms template_exitCode_inj
  by (auto simp add: runExe_def await_sel)

theorem runExe_exit_code_witness:
  "result (runExe exit3_env built_fs) = Inl (Rejected ''msix-node exited with exitCode=3'') \<and>
   result (runExe killed_env built_fs) = Inl (Rejected ''msix-node exited with exitCode=null'') \<and>
   result (runExe sample_env built_fs) = Inr ()"
  using runExe_exit_code [of exit3_env built_fs "Some 3" "[]" "[]" built_fs]
    runExe_exit_code [of killed_env built_fs None "[]" "[]" built_fs]
    runExe_exit_code [of sample_env built_fs "Some 0" "[]" "[]" built_fs]
  by (simp add: exit3_env_def killed_env_def sample_env_def decimal.simps decimal_digit_def)

text \<open>
  C9. The checksum is a function of the bytes of the file alone: whatever the path and
  whatever else the file system holds, a regular file with the bytes \<open>bs\<close> has the
  digest \<open>toString_hex (md5 e bs)\<close>, so two computations on unchanged content and two
  files with equal content agree. The digest is written in the characters
  \<^verbatim>\<open>0123456789abcdef\<close>, two for each byte of the hash.
\<close>

theorem readFileChecksum_deterministic:
  assumes "fs p = Some (File bs)" and "fs' q = Some (File bs)"
  shows "readFileChecksum e p fs = Inr (toString_hex (md5 e bs)) \<and>
         readFileChecksum e q fs' = readFileChecksum e p fs \<and>
         set (toString_hex (md5 e bs)) \<subseteq> set ''0123456789abcdef'' \<and>
         length (toString_hex (md5 e bs)) = 2 * length (md5 e bs)"
  using assms toString_hex_chars [of "md5 e bs"]
  by (simp add: readFileChecksum_def length_toString_hex)

theorem readFileChecksum_deterministic_witness:
  "readFileChecksum sample_env [''C:'', ''tool'', ''build-tmp-msix'', ''sea-prep.blob''] built_fs =
     Inr ''030102'' \<and>
   readFileChecksum sample_env [''C:'', ''tool'', ''build-tmp-msix'', ''main.js''] staged_fs =
     readFileChecksum sample_env [''C:'', ''tool'', ''build-tmp-msix'', ''sea-prep.blob''] built_fs"
  using readFileChecksum_deterministic
    [of built_fs "[''C:'', ''tool'', ''build-tmp-msix'', ''sea-prep.blob'']" "[1, 2, 3]"
        staged_fs "[''C:'', ''tool'', ''build-tmp-msix'', ''main.js'']" sample_env]
  by (simp add: sample_paths sample_env_def sample_digest_def toString_hex_def hex_digit_def)

text \<open>
  C10. Every directory the tool makes, every file it writes and every copy it makes in a
  run of \<^verbatim>\<open>main\<close> is the workspace directory or a file directly in it: the staged
  script, the build config (whose content names the entry script and the blob by their
  bare file names) and the executable. The two tools that produce the blob and patch the
  executable are started with the workspace as their working directory. The workspace is
  the directory \<^verbatim>\<open>build-tmp-msix\<close> under \<^verbatim>\<open>__dirname\<close>, whatever the working directory of
  the process. (The registration command alone is started in the directory of the
  process.)
\<close>

theorem writes_stay_in_workspace:
  "(\<forall>ev \<in> set (events (main e fs)).
      workspace_event e ev \<and> (\<forall>p. written_path ev = Some p \<longrightarrow> prefix (outDir e) p)) \<and>
   outDir e = dirname e @ [''build-tmp-msix''] \<and>
   path_join (outDir e) scriptName = dirname e @ [''build-tmp-msix'', ''main.js''] \<and>
   path_join (outDir e) seaBlobName = dirname e @ [''build-tmp-msix'', ''sea-prep.blob''] \<and>
   path_join (outDir e) exeName = dirname e @ [''build-tmp-msix'', ''msixnode.exe'']"
proof -
  have "list_all (workspace_event e) (events (main e fs))"
  proof (cases "platform e = ''win32''")
    case False
    then show ?thesis by (simp add: main_def)
  next
    case True
    then show ?thesis
      unfolding main_def
      apply (subst if_not_P, simp)
      apply (intro events_await_all events_try_catch_all workspace_prepareScript
          workspace_createTestSea workspace_registration workspace_runExe)
      by simp_all
  qed
  moreover have "prefix (outDir e) p" if "workspace_event e ev" "written_path ev = Some p" for ev p
    using that by (cases ev) (auto simp: path_join_def)
  ultimately show ?thesis
    by (auto simp: list_all_iff outDir_def path_join_def scriptName_def seaBlobName_def exeName_def)
qed

theorem writes_stay_in_workspace_witness:
  "Cp [''C:'', ''nodejs'', ''node.exe''] [''C:'', ''tool'', ''build-tmp-msix'', ''msixnode.exe'']
     \<in> set (events (main sample_env sample_fs)) \<and>
   workspace_event sample_env
     (Cp [''C:'', ''nodejs'', ''node.exe''] [''C:'', ''tool'', ''build-tmp-msix'', ''msixnode.exe'']) \<and>
   prefix (outDir sample_env) [''C:'', ''tool'', ''build-tmp-msix'', ''msixnode.exe''] \<and>
   outDir sample_env = [''C:'', ''tool'', ''build-tmp-msix'']"
proof -
  have mem: "Cp [''C:'', ''nodejs'', ''node.exe''] [''C:'', ''tool'', ''build-tmp-msix'', ''msixnode.exe'']
     \<in> set (events (main sample_env sample_fs))"
    by (simp add: sample_eval)
  from writes_stay_in_workspace [of sample_env sample_fs] mem
  show ?thesis by (auto simp: sample_env_def)
qed

end
